theory Spec2Isabelle
  imports Main "HOL-Library.Sublist" "HOL-Library.Multiset"
begin

section \<open>Strings as Python sees them\<close>

text \<open>
  A Python \<open>str\<close> is modelled as a \<open>string\<close> whose characters are the code points
  below 256. \<open>str.split()\<close> and \<open>str.strip()\<close> without arguments work on the
  characters for which \<open>str.isspace\<close> holds; among the code points below 256 these
  are 9 to 13, 28 to 32, 133 and 160.
\<close>

definition py_isspace :: "char \<Rightarrow> bool" where
  "py_isspace c =
     (let n = (of_char c :: nat)
      in (9 \<le> n \<and> n \<le> 13) \<or> (28 \<le> n \<and> n \<le> 32) \<or> n = 133 \<or> n = 160)"

text \<open>
  \<open>str.lower()\<close>, character by character. The letters \<open>A\<close> to \<open>Z\<close> and the
  upper-case letters of Latin-1 (192 to 222 except the multiplication sign 215)
  move up by 32; every other modelled character is left as it is.
\<close>

definition py_lower_char :: "char \<Rightarrow> char" where
  "py_lower_char c =
     (let n = (of_char c :: nat)
      in if (65 \<le> n \<and> n \<le> 90) \<or> (192 \<le> n \<and> n \<le> 222 \<and> n \<noteq> 215)
         then char_of (n + 32) else c)"

definition py_lower :: "string \<Rightarrow> string" where
  "py_lower s = map py_lower_char s"

text \<open>\<open>s.strip()\<close>: white space is dropped at both ends.\<close>

definition py_strip :: "string \<Rightarrow> string" where
  "py_strip s = rev (dropWhile py_isspace (rev (dropWhile py_isspace s)))"

text \<open>\<open>s.startswith(p)\<close> is \<open>prefix p s\<close>; \<open>p in s\<close> is \<open>py_in p s\<close>.\<close>

fun py_in :: "string \<Rightarrow> string \<Rightarrow> bool" where
  "py_in p [] = (p = [])"
| "py_in p (c # cs) = (prefix p (c # cs) \<or> py_in p cs)"

text \<open>
  \<open>s.split(sep)\<close> for a separator of one character: the pieces between the
  occurrences of \<open>sep\<close>, empty pieces included; the result is never empty.
\<close>

fun py_split_on :: "char \<Rightarrow> string \<Rightarrow> string list" where
  "py_split_on sep [] = [[]]"
| "py_split_on sep (c # cs) =
     (if c = sep then [] # py_split_on sep cs
      else (case py_split_on sep cs of
              [] \<Rightarrow> [[c]]
            | p # ps \<Rightarrow> (c # p) # ps))"

text \<open>
  \<open>s.split()\<close>: the maximal runs of characters that are not white space, in
  order; no piece is empty.
\<close>

function py_split :: "string \<Rightarrow> string list" where
  "py_split s =
     (case dropWhile py_isspace s of
        [] \<Rightarrow> []
      | c # cs \<Rightarrow>
          takeWhile (\<lambda>x. \<not> py_isspace x) (c # cs)
            # py_split (dropWhile (\<lambda>x. \<not> py_isspace x) (c # cs)))"
  by pat_completeness auto
termination
proof (relation "measure length")
  fix s :: string and c cs
  assume "dropWhile py_isspace s = c # cs"
  moreover have "length (dropWhile py_isspace s) \<le> length s"
    by (rule length_dropWhile_le)
  moreover have "length (dropWhile (\<lambda>x. \<not> py_isspace x) (c # cs)) \<le> length (c # cs)"
    by (rule length_dropWhile_le)
  moreover have "\<not> py_isspace c"
    using \<open>dropWhile py_isspace s = c # cs\<close> by (metis hd_dropWhile list.sel(1) list.distinct(1))
  ultimately show "(dropWhile (\<lambda>x. \<not> py_isspace x) (c # cs), s) \<in> measure length"
    using length_dropWhile_le [of "\<lambda>x. \<not> py_isspace x" cs] by simp
qed simp

declare py_split.simps [simp del]

text \<open>
  \<open>s.replace(old, new)\<close> where \<open>old\<close> is one character: every occurrence of
  \<open>old\<close> gives way to the string \<open>new\<close>.
\<close>

definition py_replace :: "char \<Rightarrow> string \<Rightarrow> string \<Rightarrow> string" where
  "py_replace old new s = concat (map (\<lambda>c. if c = old then new else [c]) s)"

section \<open>Identity extraction and sanitisation (\<open>backup_router\<close>, lines 136 to 146)\<close>

text \<open>
  The test of line 139: the lower-cased line contains \<open>hostname\<close> and the
  stripped line starts with neither \<open>!\<close> nor \<open>#\<close>.
\<close>

definition hostname_candidate :: "string \<Rightarrow> bool" where
  "hostname_candidate line =
     (py_in ''hostname'' (py_lower line)
      \<and> \<not> prefix ''!'' (py_strip line)
      \<and> \<not> prefix ''#'' (py_strip line))"

text \<open>
  The loop of lines 138 to 143 over the lines of the dump. \<open>device_hostname\<close> is
  the value the variable holds when the loop starts; the loop leaves it alone
  unless a line passes both tests, and stops at the first line that does.
\<close>

fun scan_hostname :: "string \<Rightarrow> string list \<Rightarrow> string" where
  "scan_hostname device_hostname [] = device_hostname"
| "scan_hostname device_hostname (line # lines) =
     (if hostname_candidate line then
        (let parts = py_split line
         in if length parts \<ge> 2 \<and> py_lower (parts ! 0) = ''hostname''
            then parts ! 1
            else scan_hostname device_hostname lines)
      else scan_hostname device_hostname lines)"

text \<open>
  Lines 137 to 143: the default is the stripped connection address
  (\<open>hostname.strip()\<close>); the dump is cut at every line feed.
\<close>

definition extract_hostname :: "string \<Rightarrow> string \<Rightarrow> string" where
  "extract_hostname hostname config_output =
     scan_hostname (py_strip hostname) (py_split_on (CHR 0x0A) config_output)"

text \<open>
  Line 146, the chain of \<open>replace\<close> calls in the order of the source: the
  semicolon is replaced by the empty string, then slash, backslash (0x5C), colon,
  star, question mark, double quote (0x22), the two angle brackets and the bar by
  an underscore each.
\<close>

definition sanitize_hostname :: "string \<Rightarrow> string" where
  "sanitize_hostname device_hostname =
     py_replace (CHR ''|'') ''_''
      (py_replace (CHR ''>'') ''_''
       (py_replace (CHR ''<'') ''_''
        (py_replace (CHR 0x22) ''_''
         (py_replace (CHR ''?'') ''_''
          (py_replace (CHR ''*'') ''_''
           (py_replace (CHR '':'') ''_''
            (py_replace (CHR 0x5C) ''_''
             (py_replace (CHR ''/'') ''_''
              (py_replace (CHR '';'') [] device_hostname)))))))))"

text \<open>
  The notions the statements about extraction and sanitisation are phrased in. A
  comment line is one whose stripped form starts with \<open>!\<close> or \<open>#\<close>. A hostname
  line has at least two tokens, the first of which is \<open>hostname\<close> in any mix of
  upper and lower case.
\<close>

definition comment_line :: "string \<Rightarrow> bool" where
  "comment_line line = (prefix ''!'' (py_strip line) \<or> prefix ''#'' (py_strip line))"

definition hostname_line :: "string \<Rightarrow> bool" where
  "hostname_line line =
     (case py_split line of
        t1 # t2 # ts \<Rightarrow> py_lower t1 = ''hostname''
      | _ \<Rightarrow> False)"

text \<open>
  The characters line 146 turns into an underscore, and what the whole chain
  does to one character.
\<close>

definition reserved_chars :: "char list" where
  "reserved_chars =
     [CHR ''/'', CHR 0x5C, CHR '':'', CHR ''*'', CHR ''?'', CHR 0x22, CHR ''<'', CHR ''>'', CHR ''|'']"

definition sanitize_char :: "char \<Rightarrow> string" where
  "sanitize_char c =
     (if c = CHR '';'' then [] else if c \<in> set reserved_chars then ''_'' else [c])"

section \<open>Verified properties\<close>

subsection \<open>Tokens, stripping and containment\<close>

lemma py_in_prefix: "prefix p s \<Longrightarrow> py_in p s"
  by (cases s) auto

lemma py_in_append: "py_in p (a @ p @ b)"
  by (induction a) (simp_all add: py_in_prefix)

lemma dropWhile_snoc_keep: "\<not> P c \<Longrightarrow> \<exists>ys. dropWhile P (xs @ [c]) = ys @ [c]"
  by (induction xs) auto

lemma py_strip_head:
  assumes "dropWhile py_isspace s = c # cs"
  shows "\<exists>r. py_strip s = c # r"
proof -
  have "\<not> py_isspace c"
    using assms by (metis hd_dropWhile list.sel(1) list.distinct(1))
  then obtain ys where "dropWhile py_isspace (rev cs @ [c]) = ys @ [c]"
    using dropWhile_snoc_keep [of py_isspace c "rev cs"] by blast
  then show ?thesis
    using assms by (simp add: py_strip_def)
qed

lemma py_split_Cons:
  assumes "py_split s = t # ts"
  shows "\<exists>c cs. dropWhile py_isspace s = c # cs \<and> \<not> py_isspace c
           \<and> t = c # takeWhile (\<lambda>x. \<not> py_isspace x) cs
           \<and> ts = py_split (dropWhile (\<lambda>x. \<not> py_isspace x) cs)"
proof (cases "dropWhile py_isspace s")
  case Nil
  have "py_split s = []"
    by (subst py_split.simps) (simp only: Nil list.case)
  then show ?thesis using assms by simp
next
  case (Cons c cs)
  then have "\<not> py_isspace c"
    by (metis hd_dropWhile list.sel(1) list.distinct(1))
  moreover have "py_split s = takeWhile (\<lambda>x. \<not> py_isspace x) (c # cs)
      # py_split (dropWhile (\<lambda>x. \<not> py_isspace x) (c # cs))"
    by (subst py_split.simps) (simp add: Cons)
  ultimately show ?thesis using assms Cons by simp
qed

lemma lower_hostname_head:
  assumes "py_lower (c # r) = ''hostname''"
  shows "c \<noteq> CHR ''!'' \<and> c \<noteq> CHR ''#''"
proof -
  have h: "py_lower_char c = CHR ''h''" using assms by (simp add: py_lower_def)
  have "py_lower_char (CHR ''!'') \<noteq> CHR ''h''" by code_simp
  moreover have "py_lower_char (CHR ''#'') \<noteq> CHR ''h''" by code_simp
  ultimately show ?thesis using h by auto
qed

text \<open>
  A line whose first token is \<open>hostname\<close> passes the test of line 139: the word
  occurs in the lower-cased line, and the stripped line starts with the token's
  first letter, which is no comment marker.
\<close>

lemma first_token_candidate:
  assumes "py_split line = t # ts" and "py_lower t = ''hostname''"
  shows "hostname_candidate line"
proof -
  obtain c cs where d: "dropWhile py_isspace line = c # cs"
    and t: "t = c # takeWhile (\<lambda>x. \<not> py_isspace x) cs"
    using py_split_Cons [OF assms(1)] by blast
  have "line = takeWhile py_isspace line @ c # cs"
    using d by (metis takeWhile_dropWhile_id)
  moreover have "c # cs = t @ dropWhile (\<lambda>x. \<not> py_isspace x) cs"
    using t by simp
  ultimately have "line = takeWhile py_isspace line @ t @ dropWhile (\<lambda>x. \<not> py_isspace x) cs"
    by simp
  then have "py_lower line = py_lower (takeWhile py_isspace line) @ ''hostname''
                @ py_lower (dropWhile (\<lambda>x. \<not> py_isspace x) cs)"
    using assms(2) by (metis py_lower_def map_append)
  then have 1: "py_in ''hostname'' (py_lower line)"
    by (metis py_in_append)
  obtain r where r: "py_strip line = c # r"
    using py_strip_head [OF d] by blast
  have "c \<noteq> CHR ''!'' \<and> c \<noteq> CHR ''#''"
    using lower_hostname_head assms(2) t by blast
  then show ?thesis
    using 1 r by (auto simp: hostname_candidate_def)
qed

lemma hostname_line_candidate: "hostname_line line \<Longrightarrow> hostname_candidate line"
  unfolding hostname_line_def
  by (auto split: list.splits intro: first_token_candidate)

lemma hostname_line_tokens:
  "hostname_line line =
     (length (py_split line) \<ge> 2 \<and> py_lower (py_split line ! 0) = ''hostname'')"
  unfolding hostname_line_def by (auto split: list.splits)

lemma scan_hostname_find:
  "scan_hostname d ls =
     (case find (\<lambda>line. \<not> comment_line line \<and> hostname_line line) ls of
        None \<Rightarrow> d
      | Some line \<Rightarrow> py_split line ! 1)"
proof (induction ls)
  case Nil
  show ?case by simp
next
  case (Cons l ls)
  show ?case
  proof (cases "hostname_line l")
    case True
    then have c: "hostname_candidate l" by (rule hostname_line_candidate)
    then have "\<not> comment_line l" by (simp add: hostname_candidate_def comment_line_def)
    then show ?thesis using True c by (simp add: hostname_line_tokens Let_def)
  next
    case False
    then show ?thesis using Cons by (auto simp: hostname_line_tokens Let_def)
  qed
qed

subsection \<open>Identity extraction\<close>

text \<open>
  Claim C3, as the code has it. Extraction goes through the lines of the dump in
  order and stops at the first line that is no comment line and is a hostname
  line, that is, has at least two tokens of which the first is \<open>hostname\<close> in any
  case; it returns the second token of that line. When no line qualifies it
  returns the stripped connection address.
\<close>

theorem extract_hostname_first_match:
  "extract_hostname hostname config_output =
     (case find (\<lambda>line. \<not> comment_line line \<and> hostname_line line)
             (py_split_on (CHR 0x0A) config_output) of
        None \<Rightarrow> py_strip hostname
      | Some line \<Rightarrow> py_split line ! 1)"
  unfolding extract_hostname_def by (rule scan_hostname_find)

text \<open>
  The theorem at a dump with a comment line that mentions a hostname, a line
  with the keyword alone, and two hostname lines.
\<close>

theorem extract_hostname_first_match_witness:
  "extract_hostname ''10.0.0.1''
     (''! hostname X'' @ [CHR 0x0A] @ ''hostname'' @ [CHR 0x0A] @ ''  HostName Router-42 a''
        @ [CHR 0x0A] @ ''hostname B'') = ''Router-42''"
  by (subst extract_hostname_first_match) code_simp

text \<open>
  Claim C3 as stated asks for one sentinel value when no line matches. The same
  dump without a hostname line gives two different results for two addresses:
  each time the address itself.
\<close>

theorem extract_hostname_no_sentinel:
  "extract_hostname ''10.0.0.1'' ''interface eth0'' = ''10.0.0.1''
   \<and> extract_hostname ''10.0.0.2'' ''interface eth0'' = ''10.0.0.2''"
  by code_simp

subsection \<open>Sanitisation\<close>

lemma py_replace_concat_map:
  "py_replace old new (concat (map f s)) = concat (map (\<lambda>c. py_replace old new (f c)) s)"
  by (induction s) (simp_all add: py_replace_def)

lemma py_replace_as_map: "py_replace old new s = concat (map (\<lambda>c. py_replace old new [c]) s)"
  by (induction s) (simp_all add: py_replace_def)

lemma sanitize_hostname_map: "sanitize_hostname h = concat (map sanitize_char h)"
proof -
  have "sanitize_hostname h = concat (map (\<lambda>c. sanitize_hostname [c]) h)"
    unfolding sanitize_hostname_def
    by (subst py_replace_as_map [of _ _ h]) (simp only: py_replace_concat_map)
  moreover have "sanitize_hostname [c] = sanitize_char c" for c
    by (simp add: sanitize_hostname_def sanitize_char_def reserved_chars_def py_replace_def)
  ultimately show ?thesis by simp
qed

text \<open>
  Claim C9, as the code has it. Sanitisation works character by character: a
  semicolon is dropped, each of the nine reserved characters (slash, backslash,
  colon, star, question mark, double quote, the angle brackets, the bar) becomes
  an underscore, and every other character stays. So the result holds neither a
  path separator nor a reserved character nor a semicolon, and
  \<open>Core/Router:1\<close> becomes \<open>Core_Router_1\<close>.
\<close>

theorem sanitize_hostname_safe:
  "sanitize_hostname h = concat (map sanitize_char h)
   \<and> set (sanitize_hostname h) \<inter> set (CHR '';'' # reserved_chars) = {}
   \<and> sanitize_hostname ''Core/Router:1'' = ''Core_Router_1''"
proof -
  define F where "F = set (CHR '';'' # reserved_chars)"
  have "set (sanitize_char c) \<inter> F = {}" for c
    by (auto simp: F_def sanitize_char_def reserved_chars_def)
  then have "set (concat (map sanitize_char h)) \<inter> F = {}"
    by (induction h) (simp_all add: Int_Un_distrib2)
  then have "set (concat (map sanitize_char h)) \<inter> set (CHR '';'' # reserved_chars) = {}"
    by (simp only: F_def)
  moreover have "sanitize_hostname ''Core/Router:1'' = ''Core_Router_1''"
    by code_simp
  ultimately show ?thesis by (simp only: sanitize_hostname_map simp_thms)
qed

theorem sanitize_hostname_safe_witness:
  "sanitize_hostname ''a;b/c|d'' = ''ab_c_d''"
  by (simp only: sanitize_hostname_safe [THEN conjunct1]) code_simp

text \<open>
  Claim C9 as stated has every shell metacharacter replaced by an underscore.
  In this identity the semicolon disappears without a replacement, and the
  dollar sign, the parentheses and the ampersand are kept.
\<close>

theorem sanitize_hostname_keeps_metachars:
  "sanitize_hostname ''R1;$(id)&'' = ''R1$(id)&''"
  by code_simp

end
